theory Spec2Isabelle
  imports Main
begin

section \<open>JavaScript values\<close>

text \<open>
  Strings are lists of code units; a \<^typ>\<open>char\<close> covers the code units below 256, which is
  all that the functions below distinguish apart from the white space beyond Latin-1.
  A JavaScript number is a double. The numbers of the services stem from
  \<open>Number.parseInt\<close> or are columns of type \<open>integer\<close>, so they are doubles whose value
  is an integer, \<open>NaN\<close>, or an infinity: \<open>Number i\<close> is the double of value \<open>i\<close>.
\<close>

datatype jsnumber = NaN | Number int | PosInfinity | NegInfinity

datatype jsval = Undefined | JString string | JNumber jsnumber

text \<open>A plain object such as the query of a request: its own properties in order, each
  name once.\<close>

type_synonym jsobject = "(string \<times> jsval) list"

definition Object_keys :: "jsobject \<Rightarrow> string list" where
  "Object_keys obj = map fst obj"

text \<open>Reading a property (also by destructuring) gives \<open>undefined\<close> when it is absent.\<close>

definition get_prop :: "jsobject \<Rightarrow> string \<Rightarrow> jsval" where
  "get_prop obj k = (case map_of obj k of None \<Rightarrow> Undefined | Some v \<Rightarrow> v)"

definition dquote :: char where
  "dquote = CHR 0x22"

definition is_digit :: "char \<Rightarrow> bool" where
  "is_digit c = (48 \<le> (of_char c :: nat) \<and> (of_char c :: nat) \<le> 57)"

definition digit_value :: "char \<Rightarrow> int" where
  "digit_value c = int (of_char c) - 48"

text \<open>\<open>StrWhiteSpaceChar\<close> of ECMAScript, on the code units below 256:
  TAB, LF, VT, FF, CR, SP and NBSP.\<close>

definition is_white_space :: "char \<Rightarrow> bool" where
  "is_white_space c = ((of_char c :: nat) \<in> {9, 10, 11, 12, 13, 32, 160})"

definition digits_value :: "string \<Rightarrow> int" where
  "digits_value ds = foldl (\<lambda>acc c. 10 * acc + digit_value c) 0 ds"

text \<open>The double nearest to an integer, ties going to the even significand of 53 bits:
  below \<open>2^53\<close> the integer itself; beyond, the low bits are rounded away; and from
  \<open>2^1024\<close> on, infinity.\<close>

function bit_length :: "int \<Rightarrow> nat" where
  "bit_length m = (if m \<le> 0 then 0 else Suc (bit_length (m div 2)))"
  by pat_completeness auto
termination
  by (relation "measure nat") auto

definition round_magnitude :: "int \<Rightarrow> int" where
  "round_magnitude m =
     (if m < 2 ^ 53 then m
      else
        let e = bit_length m - 53;
            q = m div 2 ^ e;
            r = m mod 2 ^ e;
            half = 2 ^ (e - 1);
            q' = (if half < r \<or> (r = half \<and> odd q) then q + 1 else q)
        in q' * 2 ^ e)"

definition toDouble :: "int \<Rightarrow> jsnumber" where
  "toDouble i =
     (let v = round_magnitude \<bar>i\<bar>
      in if 2 ^ 1024 \<le> v then (if i < 0 then NegInfinity else PosInfinity)
         else Number (if i < 0 then - v else v))"

text \<open>\<open>Number.parseInt(s, 10)\<close>: leading white space is skipped, one sign is read, the
  longest run of decimal digits is read as an integer and whatever follows is ignored;
  the result is the double of that integer, and \<open>NaN\<close> without a digit. (For more than
  20 significant digits ECMAScript lets an implementation round the digits first; the
  rounding here is the correct one, as Node computes it.)\<close>

definition strip_sign :: "string \<Rightarrow> bool \<times> string" where
  "strip_sign s =
     (case s of
        [] \<Rightarrow> (False, [])
      | c # r \<Rightarrow>
          if c = CHR ''-'' then (True, r)
          else if c = CHR ''+'' then (False, r)
          else (False, s))"

definition parseInt :: "string \<Rightarrow> jsnumber" where
  "parseInt s =
     (let (neg, z) = strip_sign (dropWhile is_white_space s);
          ds = takeWhile is_digit z
      in if ds = [] then NaN
         else toDouble ((if neg then - 1 else 1) * digits_value ds))"

definition isNaN :: "jsnumber \<Rightarrow> bool" where
  "isNaN n = (n = NaN)"

text \<open>\<open>s.slice(start, end)\<close>: a negative index counts from the end, and both are clamped.\<close>

definition slice :: "string \<Rightarrow> int \<Rightarrow> int \<Rightarrow> string" where
  "slice s start end' =
     (let len = int (length s);
          from = (if start < 0 then max (len + start) 0 else min start len);
          to = (if end' < 0 then max (len + end') 0 else min end' len)
      in take (nat (to - from)) (drop (nat from) s))"

text \<open>The relational operator \<open><\<close> on numbers: false as soon as one side is \<open>NaN\<close>.\<close>

fun js_less :: "jsnumber \<Rightarrow> jsnumber \<Rightarrow> bool" where
  "js_less (Number a) (Number b) = (a < b)"
| "js_less NegInfinity (Number b) = True"
| "js_less NegInfinity PosInfinity = True"
| "js_less (Number a) PosInfinity = True"
| "js_less _ _ = False"

text \<open>\<open>toString()\<close> of a number: decimal digits, with a minus sign when negative.
  (From \<open>10^21\<close> on JavaScript prints an exponent, which is not followed here; the
  search parameters of a request are strings.)\<close>

fun nat_toString :: "nat \<Rightarrow> string" where
  "nat_toString n =
     (if n < 10 then [char_of (48 + n)]
      else nat_toString (n div 10) @ [char_of (48 + n mod 10)])"

definition int_toString :: "int \<Rightarrow> string" where
  "int_toString i = (if i < 0 then CHR ''-'' # nat_toString (nat (- i)) else nat_toString (nat i))"

text \<open>\<open>v.toString()\<close> for a value that is not \<open>undefined\<close>; the callers guard it.\<close>

fun toString :: "jsval \<Rightarrow> string" where
  "toString (JString s) = s"
| "toString (JNumber (Number i)) = int_toString i"
| "toString (JNumber NaN) = ''NaN''"
| "toString (JNumber PosInfinity) = ''Infinity''"
| "toString (JNumber NegInfinity) = ''-Infinity''"
| "toString Undefined = []"

section \<open>Search parameters (suchparameter.ts)\<close>

definition suchparameterNamen :: "string list" where
  "suchparameterNamen =
     [''id'', ''matriculationNumber'', ''firstName'', ''lastName'', ''email'', ''semester'']"

text \<open>The values of the enumeration \<open>TransactionType\<close>, as the schema declares the type
  \<open>transaction_type\<close>.\<close>

definition TransactionType_values :: "string list" where
  "TransactionType_values = [''LOAD'', ''SPEND'', ''REFUND'']"

section \<open>WhereBuilder (where-builder.ts)\<close>

text \<open>\<open>StudentWhereInput\<close>, as far as the builder fills it: a field that is \<open>None\<close> is
  absent from the object. \<open>id\<close> and \<open>semester\<close> carry \<open>{ equals }\<close>, the four text
  fields \<open>{ contains, mode: insensitive }\<close>, and \<open>transactions\<close> carries
  \<open>{ some: { type: { equals } } }\<close>.\<close>

record StudentWhereInput =
  where_id :: "jsnumber option"
  where_matriculationNumber :: "string option"
  where_firstName :: "string option"
  where_lastName :: "string option"
  where_email :: "string option"
  where_semester :: "jsnumber option"
  where_transactions :: "jsval option"

definition empty_where :: StudentWhereInput where
  "empty_where =
     \<lparr>where_id = None, where_matriculationNumber = None, where_firstName = None,
      where_lastName = None, where_email = None, where_semester = None,
      where_transactions = None\<rparr>"

text \<open>\<open>#toInt\<close>; the result \<open>undefined\<close> is \<open>None\<close>.\<close>

fun toInt :: "jsval \<Rightarrow> jsnumber option" where
  "toInt Undefined = None"
| "toInt v =
     (let parsed = (case v of JNumber n \<Rightarrow> n | JString s \<Rightarrow> parseInt s | Undefined \<Rightarrow> NaN)
      in if isNaN parsed then None else Some parsed)"

definition build :: "jsobject \<Rightarrow> StudentWhereInput" where
  "build suchparameter =
     (let id = get_prop suchparameter ''id'';
          matriculationNumber = get_prop suchparameter ''matriculationNumber'';
          firstName = get_prop suchparameter ''firstName'';
          lastName = get_prop suchparameter ''lastName'';
          email = get_prop suchparameter ''email'';
          semester = get_prop suchparameter ''semester'';
          art = get_prop suchparameter ''art'';
          w0 = empty_where;
          idNumber = toInt id;
          w1 = (if idNumber \<noteq> None then w0\<lparr>where_id := idNumber\<rparr> else w0);
          w2 = (if matriculationNumber \<noteq> Undefined
                then w1\<lparr>where_matriculationNumber := Some (toString matriculationNumber)\<rparr>
                else w1);
          w3 = (if firstName \<noteq> Undefined
                then w2\<lparr>where_firstName := Some (toString firstName)\<rparr> else w2);
          w4 = (if lastName \<noteq> Undefined
                then w3\<lparr>where_lastName := Some (toString lastName)\<rparr> else w3);
          w5 = (if email \<noteq> Undefined
                then w4\<lparr>where_email := Some (toString email)\<rparr> else w4);
          semesterNumber = toInt semester;
          w6 = (if semesterNumber \<noteq> None then w5\<lparr>where_semester := semesterNumber\<rparr> else w5);
          w7 = (if art \<noteq> Undefined then w6\<lparr>where_transactions := Some art\<rparr> else w6)
      in w7)"

section \<open>The store (schema of create-table.sql, reached through Prisma)\<close>

text \<open>
  The rows of the four tables, in the order the store returns them, and the sequences
  that generate their identifiers. Timestamps are left out; the money columns
  \<open>decimal(12,2)\<close> are counted in hundredths.

  What the database does with a text pattern is a parameter of the read operations:
  \<open>contains\<close> with \<open>mode: insensitive\<close> becomes \<open>ILIKE\<close> under the collation of the
  database, with the wildcards and the escape character that the pattern may hold. For a
  pattern the parameter gives the test on the values of a column, or nothing when the
  database refuses the pattern.
\<close>

type_synonym text_filter = "string \<Rightarrow> (string \<Rightarrow> bool) option"

record Student =
  s_id :: int
  s_version :: int
  s_matriculationNumber :: string
  s_firstName :: string
  s_lastName :: string
  s_email :: string
  s_semester :: int

record Wallet =
  w_id :: int
  w_version :: int
  w_balance :: int
  w_autoReloadEnabled :: bool
  w_autoReloadThreshold :: int
  w_autoReloadAmount :: int
  w_studentId :: int

record Transaction =
  t_id :: int
  t_amount :: int
  t_type :: string
  t_reference :: "string option"
  t_location :: "string option"
  t_studentId :: int

record StudentwalletFile =
  f_id :: int
  f_filename :: string
  f_data :: "nat list"
  f_mimetype :: "string option"
  f_studentId :: int

record db =
  students :: "Student list"
  wallets :: "Wallet list"
  transactions :: "Transaction list"
  files :: "StudentwalletFile list"
  student_seq :: int
  wallet_seq :: int
  transaction_seq :: int
  file_seq :: int

text \<open>The errors of the services (exceptions.ts and \<open>NotFoundException\<close>), and
  \<open>StoreError\<close> for whatever the store itself rejects: a violated constraint or a row
  that is not there.\<close>

datatype error =
    NotFound
  | MatrNrExists string
  | VersionInvalid string
  | VersionOutdated jsnumber
  | StoreError

text \<open>A call of the client gives a promise; \<open>await\<close> gives its value. A promise is an
  object, so the comparison \<open>p === null\<close> of a promise that was not awaited is false
  whatever it will resolve to.\<close>

datatype 'a promise = Promise 'a

fun await :: "'a promise \<Rightarrow> 'a" where
  "await (Promise x) = x"

definition promise_is_null :: "'a promise \<Rightarrow> bool" where
  "promise_is_null p = False"

text \<open>\<open>student.findUnique({ where: { id } })\<close>; \<open>null\<close> is \<open>None\<close>.\<close>

definition student_findUnique :: "db \<Rightarrow> int \<Rightarrow> Student option promise" where
  "student_findUnique d i = Promise (find (\<lambda>s. s_id s = i) (students d))"

text \<open>The constraints of table \<open>student\<close> on a row that is to be stored, \<open>others\<close> being
  the rows that stay: primary key, the two \<open>UNIQUE\<close> columns, the \<open>CHECK\<close> on the
  semester, and the range of the type \<open>integer\<close>.\<close>

definition in_int4 :: "int \<Rightarrow> bool" where
  "in_int4 x = (- 2147483648 \<le> x \<and> x \<le> 2147483647)"

definition student_constraints :: "Student list \<Rightarrow> Student \<Rightarrow> bool" where
  "student_constraints others r =
     (list_all (\<lambda>s. s_id s \<noteq> s_id r) others \<and>
      list_all (\<lambda>s. s_matriculationNumber s \<noteq> s_matriculationNumber r) others \<and>
      list_all (\<lambda>s. s_email s \<noteq> s_email r) others \<and>
      1 \<le> s_semester r \<and> in_int4 (s_semester r) \<and> in_int4 (s_version r))"

text \<open>Whether the store takes a predicate: a number for \<open>id\<close> or \<open>semester\<close> has to
  fit the type \<open>integer\<close> of the column, a pattern has to be one the database accepts,
  and a transaction type has to be a value of the enumeration. Otherwise the query fails
  with an error of the store.\<close>

fun integer_accepted :: "jsnumber option \<Rightarrow> bool" where
  "integer_accepted None = True"
| "integer_accepted (Some (Number i)) = in_int4 i"
| "integer_accepted (Some _) = False"

definition pattern_accepted :: "text_filter \<Rightarrow> string option \<Rightarrow> bool" where
  "pattern_accepted ilike x = (case x of None \<Rightarrow> True | Some p \<Rightarrow> ilike p \<noteq> None)"

definition where_accepted :: "text_filter \<Rightarrow> StudentWhereInput \<Rightarrow> bool" where
  "where_accepted ilike w =
     (integer_accepted (where_id w) \<and>
      pattern_accepted ilike (where_matriculationNumber w) \<and>
      pattern_accepted ilike (where_firstName w) \<and>
      pattern_accepted ilike (where_lastName w) \<and>
      pattern_accepted ilike (where_email w) \<and>
      integer_accepted (where_semester w) \<and>
      (case where_transactions w of None \<Rightarrow> True
       | Some ty \<Rightarrow> ty \<in> set (map JString TransactionType_values)))"

text \<open>What a predicate selects: \<open>equals\<close> compares, \<open>contains\<close> tests the column with
  the pattern, and \<open>some\<close> asks for one transaction of the student.\<close>

definition text_matches :: "text_filter \<Rightarrow> string option \<Rightarrow> string \<Rightarrow> bool" where
  "text_matches ilike x column =
     (case x of
        None \<Rightarrow> True
      | Some p \<Rightarrow> (case ilike p of None \<Rightarrow> False | Some test \<Rightarrow> test column))"

definition matches :: "text_filter \<Rightarrow> db \<Rightarrow> StudentWhereInput \<Rightarrow> Student \<Rightarrow> bool" where
  "matches ilike d w s =
     ((case where_id w of None \<Rightarrow> True | Some n \<Rightarrow> n = Number (s_id s)) \<and>
      text_matches ilike (where_matriculationNumber w) (s_matriculationNumber s) \<and>
      text_matches ilike (where_firstName w) (s_firstName s) \<and>
      text_matches ilike (where_lastName w) (s_lastName s) \<and>
      text_matches ilike (where_email w) (s_email s) \<and>
      (case where_semester w of None \<Rightarrow> True | Some n \<Rightarrow> n = Number (s_semester s)) \<and>
      (case where_transactions w of None \<Rightarrow> True
       | Some ty \<Rightarrow>
           list_ex (\<lambda>t. t_studentId t = s_id s \<and> JString (t_type t) = ty) (transactions d)))"

text \<open>\<open>student.findMany({ where, skip, take, include: { wallet: true } })\<close>; without
  \<open>where\<close> every row is selected.\<close>

definition selected :: "text_filter \<Rightarrow> db \<Rightarrow> StudentWhereInput option \<Rightarrow> Student list" where
  "selected ilike d w =
     (case w of None \<Rightarrow> students d | Some p \<Rightarrow> filter (matches ilike d p) (students d))"

type_synonym StudentMitWallet = "Student \<times> Wallet option"

definition include_wallet :: "db \<Rightarrow> Student \<Rightarrow> StudentMitWallet" where
  "include_wallet d s = (s, find (\<lambda>w. w_studentId w = s_id s) (wallets d))"

definition student_findMany ::
  "text_filter \<Rightarrow> db \<Rightarrow> StudentWhereInput option \<Rightarrow> nat \<Rightarrow> nat
     \<Rightarrow> error + StudentMitWallet list" where
  "student_findMany ilike d w skip take' =
     (if (case w of None \<Rightarrow> False | Some p \<Rightarrow> \<not> where_accepted ilike p) then Inl StoreError
      else Inr (map (include_wallet d) (take take' (drop skip (selected ilike d w)))))"

text \<open>\<open>student.count()\<close> and \<open>student.count({ where: { matriculationNumber } })\<close>, the
  latter with the equality that a plain value stands for.\<close>

definition student_count :: "db \<Rightarrow> nat" where
  "student_count d = length (students d)"

definition student_count_matriculationNumber :: "db \<Rightarrow> string \<Rightarrow> nat" where
  "student_count_matriculationNumber d m =
     length (filter (\<lambda>s. s_matriculationNumber s = m) (students d))"

section \<open>StudentwalletService (studentwallet-service.ts)\<close>

text \<open>\<open>Pageable\<close> comes from \<open>createPageable\<close>, which is not among the sources; page
  number and page size are natural numbers here.\<close>

record Pageable =
  p_number :: nat
  p_size :: nat

record Slice =
  content :: "StudentMitWallet list"
  totalElements :: nat

definition findById :: "db \<Rightarrow> int \<Rightarrow> error + Student" where
  "findById d i =
     (let student = await (student_findUnique d i)
      in case student of None \<Rightarrow> Inl NotFound | Some s \<Rightarrow> Inr s)"

definition count :: "db \<Rightarrow> nat" where
  "count d = student_count d"

definition createSlice :: "StudentMitWallet list \<Rightarrow> nat \<Rightarrow> Slice" where
  "createSlice studenten n = \<lparr>content = studenten, totalElements = n\<rparr>"

definition findAll :: "text_filter \<Rightarrow> db \<Rightarrow> Pageable \<Rightarrow> error + Slice" where
  "findAll ilike d pageable =
     (case student_findMany ilike d None (p_number pageable * p_size pageable) (p_size pageable) of
        Inl e \<Rightarrow> Inl e
      | Inr studenten \<Rightarrow>
          if length studenten = 0 then Inl NotFound
          else Inr (createSlice studenten (count d)))"

definition checkKeys :: "string list \<Rightarrow> bool" where
  "checkKeys keys = list_all (\<lambda>key. key \<in> set suchparameterNamen \<or> key = ''art'') keys"

definition checkEnums :: "jsobject \<Rightarrow> bool" where
  "checkEnums suchparameter =
     (let art = get_prop suchparameter ''art''
      in art = Undefined \<or> art \<in> set (map JString TransactionType_values))"

definition find' :: "text_filter \<Rightarrow> db \<Rightarrow> jsobject option \<Rightarrow> Pageable \<Rightarrow> error + Slice" where
  "find' ilike d suchparameter pageable =
     (case suchparameter of
        None \<Rightarrow> findAll ilike d pageable
      | Some sp \<Rightarrow>
          let keys = Object_keys sp
          in if length keys = 0 then findAll ilike d pageable
             else if \<not> checkKeys keys \<or> \<not> checkEnums sp then Inl NotFound
             else
               let w = build sp
               in (case student_findMany ilike d (Some w) (p_number pageable * p_size pageable)
                         (p_size pageable) of
                     Inl e \<Rightarrow> Inl e
                   | Inr studenten \<Rightarrow>
                       if length studenten = 0 then Inl NotFound
                       else Inr (createSlice studenten (count d))))"

section \<open>Writing to the store\<close>

text \<open>\<open>Prisma.StudentCreateInput\<close> with its nested \<open>wallet.create\<close> and
  \<open>transactions.create\<close>. The services test the matriculation number against
  \<open>undefined\<close>, so it is optional here; the store refuses a row without it.\<close>

record WalletCreate =
  wc_balance :: int
  wc_autoReloadEnabled :: bool
  wc_autoReloadThreshold :: int
  wc_autoReloadAmount :: int

record TransactionCreate =
  tc_amount :: int
  tc_type :: string
  tc_reference :: "string option"
  tc_location :: "string option"

record StudentCreate =
  c_matriculationNumber :: "string option"
  c_firstName :: string
  c_lastName :: string
  c_email :: string
  c_semester :: int
  c_wallet :: "WalletCreate option"
  c_transactions :: "TransactionCreate list"

definition new_wallet :: "int \<Rightarrow> int \<Rightarrow> WalletCreate \<Rightarrow> Wallet" where
  "new_wallet i sid w =
     \<lparr>w_id = i, w_version = 0, w_balance = wc_balance w,
      w_autoReloadEnabled = wc_autoReloadEnabled w,
      w_autoReloadThreshold = wc_autoReloadThreshold w,
      w_autoReloadAmount = wc_autoReloadAmount w, w_studentId = sid\<rparr>"

definition new_transaction :: "int \<Rightarrow> nat \<times> TransactionCreate \<Rightarrow> Transaction" where
  "new_transaction sid nt =
     \<lparr>t_id = int (fst nt), t_amount = tc_amount (snd nt), t_type = tc_type (snd nt),
      t_reference = tc_reference (snd nt), t_location = tc_location (snd nt),
      t_studentId = sid\<rparr>"

text \<open>A transaction that fails is rolled back: the tables are as they were before it.
  An identifier that a statement has drawn from a sequence stays drawn.\<close>

definition rollback :: "db \<Rightarrow> db \<Rightarrow> db" where
  "rollback d d' =
     d\<lparr>student_seq := student_seq d', wallet_seq := wallet_seq d',
       transaction_seq := transaction_seq d', file_seq := file_seq d'\<rparr>"

text \<open>\<open>tx.student.create({ data, include })\<close>: the row gets the next identifier and
  version 0; the nested rows follow. What the client refuses by itself (no matriculation
  number, a transaction type outside the enumeration, a semester beyond the type
  \<open>integer\<close>) reaches no statement. A row that the database refuses has drawn its
  identifier already.\<close>

definition student_create :: "db \<Rightarrow> StudentCreate \<Rightarrow> (error + Student) \<times> db" where
  "student_create d data =
     (case c_matriculationNumber data of
        None \<Rightarrow> (Inl StoreError, d)
      | Some m \<Rightarrow>
          if list_ex (\<lambda>t. tc_type t \<notin> set TransactionType_values) (c_transactions data)
          then (Inl StoreError, d)
          else if \<not> in_int4 (c_semester data) then (Inl StoreError, d)
          else
            let r = \<lparr>s_id = student_seq d, s_version = 0, s_matriculationNumber = m,
                     s_firstName = c_firstName data, s_lastName = c_lastName data,
                     s_email = c_email data, s_semester = c_semester data\<rparr>;
                d1 = d\<lparr>student_seq := student_seq d + 1\<rparr>
            in if \<not> student_constraints (students d) r then (Inl StoreError, d1)
               else
                 let ws = (case c_wallet data of None \<Rightarrow> []
                           | Some w \<Rightarrow> [new_wallet (wallet_seq d) (s_id r) w]);
                     d2 = d1\<lparr>wallet_seq := wallet_seq d + int (length ws)\<rparr>
                 in if ws \<noteq> [] \<and>
                       list_ex (\<lambda>w. w_id w = wallet_seq d \<or> w_studentId w = s_id r) (wallets d)
                    then (Inl StoreError, d2)
                    else
                      let ts = map (new_transaction (s_id r))
                                 (enumerate (nat (transaction_seq d)) (c_transactions data))
                      in (Inr r,
                          d2\<lparr>students := students d @ [r],
                             wallets := wallets d @ ws,
                             transactions := transactions d @ ts,
                             transaction_seq := transaction_seq d + int (length ts)\<rparr>))"

text \<open>\<open>Prisma.StudentUpdateInput\<close> on the columns of the student: a text column is set,
  an integer column is set or incremented.\<close>

datatype int_update = Set' int | Increment int

record StudentUpdate =
  u_version :: "int_update option"
  u_matriculationNumber :: "string option"
  u_firstName :: "string option"
  u_lastName :: "string option"
  u_email :: "string option"
  u_semester :: "int_update option"

fun apply_int_update :: "int_update option \<Rightarrow> int \<Rightarrow> int" where
  "apply_int_update None old = old"
| "apply_int_update (Some (Set' v)) old = v"
| "apply_int_update (Some (Increment k)) old = old + k"

definition set_or_keep :: "'a option \<Rightarrow> 'a \<Rightarrow> 'a" where
  "set_or_keep u old = (case u of None \<Rightarrow> old | Some v \<Rightarrow> v)"

definition patched :: "StudentUpdate \<Rightarrow> Student \<Rightarrow> Student" where
  "patched data s =
     \<lparr>s_id = s_id s,
      s_version = apply_int_update (u_version data) (s_version s),
      s_matriculationNumber = set_or_keep (u_matriculationNumber data) (s_matriculationNumber s),
      s_firstName = set_or_keep (u_firstName data) (s_firstName s),
      s_lastName = set_or_keep (u_lastName data) (s_lastName s),
      s_email = set_or_keep (u_email data) (s_email s),
      s_semester = apply_int_update (u_semester data) (s_semester s)\<rparr>"

text \<open>\<open>tx.student.update({ data, where: { id } })\<close>: it fails when there is no such row
  or when the patched row violates a constraint.\<close>

definition student_update :: "db \<Rightarrow> int \<Rightarrow> StudentUpdate \<Rightarrow> error + Student \<times> db" where
  "student_update d i data =
     (case find (\<lambda>s. s_id s = i) (students d) of
        None \<Rightarrow> Inl StoreError
      | Some s \<Rightarrow>
          let r = patched data s
          in if \<not> student_constraints (filter (\<lambda>x. s_id x \<noteq> i) (students d)) r
             then Inl StoreError
             else Inr (r, d\<lparr>students := map (\<lambda>x. if s_id x = i then r else x) (students d)\<rparr>))"

text \<open>\<open>studentwalletFile.deleteMany({ where: { studentId } })\<close> and
  \<open>studentwalletFile.create({ data })\<close>. The table of the files is not declared in the
  sources: \<open>fk\<close> says whether it has a foreign key to the student, which the store then
  enforces; \<open>findUnique({ where: { studentId } })\<close> of the read service shows that the
  column is unique.\<close>

definition file_deleteMany :: "db \<Rightarrow> int \<Rightarrow> db" where
  "file_deleteMany d studentId = d\<lparr>files := filter (\<lambda>f. f_studentId f \<noteq> studentId) (files d)\<rparr>"

record StudentFileCreate =
  fc_filename :: string
  fc_data :: "nat list"
  fc_mimetype :: "string option"
  fc_studentId :: int

definition file_create ::
  "bool \<Rightarrow> db \<Rightarrow> StudentFileCreate \<Rightarrow> (error + StudentwalletFile) \<times> db" where
  "file_create fk d data =
     (let r = \<lparr>f_id = file_seq d, f_filename = fc_filename data, f_data = fc_data data,
               f_mimetype = fc_mimetype data, f_studentId = fc_studentId data\<rparr>;
          d1 = d\<lparr>file_seq := file_seq d + 1\<rparr>
      in if list_ex (\<lambda>f. f_id f = f_id r \<or> f_studentId f = f_studentId r) (files d)
           then (Inl StoreError, d1)
         else if fk \<and> \<not> list_ex (\<lambda>s. s_id s = f_studentId r) (students d)
           then (Inl StoreError, d1)
         else (Inr r, d1\<lparr>files := files d @ [r]\<rparr>))"

section \<open>StudentwalletWriteService (studentwallet-write-service.ts)\<close>

text \<open>Each operation returns the state of the store together with its result; after an
  error the transaction has been rolled back.\<close>

text \<open>\<open>VERSION_PATTERN.test(s)\<close> for \<open>/^"\d{1,3}"/u\<close>: at the start of \<open>s\<close> a double
  quote, then three, two or one digits, then a double quote. The pattern has no \<open>$\<close>, so
  nothing is asked of what follows.\<close>

definition digits_then_quote :: "nat \<Rightarrow> string \<Rightarrow> bool" where
  "digits_then_quote k r =
     (k < length r \<and> list_all is_digit (take k r) \<and> r ! k = dquote)"

definition VERSION_PATTERN_test :: "string \<Rightarrow> bool" where
  "VERSION_PATTERN_test s =
     (case s of
        [] \<Rightarrow> False
      | c # r \<Rightarrow>
          c = dquote \<and>
          (digits_then_quote 3 r \<or> digits_then_quote 2 r \<or> digits_then_quote 1 r))"

definition validateCreate :: "db \<Rightarrow> StudentCreate \<Rightarrow> error + unit" where
  "validateCreate d student =
     (case c_matriculationNumber student of
        None \<Rightarrow> Inr ()
      | Some matriculationNumber \<Rightarrow>
          let anzahl = student_count_matriculationNumber d matriculationNumber
          in if anzahl > 0 then Inl (MatrNrExists matriculationNumber) else Inr ())"

definition create :: "db \<Rightarrow> StudentCreate \<Rightarrow> (error + int) \<times> db" where
  "create d student =
     (case validateCreate d student of
        Inl e \<Rightarrow> (Inl e, d)
      | Inr _ \<Rightarrow>
          (case student_create d student of
             (Inl e, d') \<Rightarrow> (Inl e, rollback d d')
           | (Inr studentDb, d') \<Rightarrow> (Inr (s_id studentDb), d')))"

text \<open>\<open>addFile\<close>. The result of \<open>tx.student.findUnique\<close> is compared with \<open>null\<close>
  without \<open>await\<close>. \<open>fileTypeFromBuffer\<close> belongs to a library and is a parameter;
  \<open>size\<close> is only logged.\<close>

definition addFile ::
  "bool \<Rightarrow> (nat list \<Rightarrow> string option) \<Rightarrow> db \<Rightarrow> int \<Rightarrow> nat list \<Rightarrow> string \<Rightarrow> nat
     \<Rightarrow> (error + StudentwalletFile) \<times> db" where
  "addFile fk fileTypeFromBuffer d studentId data filename size' =
     (let buch = student_findUnique d studentId
      in if promise_is_null buch then (Inl NotFound, d)
         else
           let d1 = file_deleteMany d studentId;
               mimetype = fileTypeFromBuffer data;
               studentwalletFile =
                 \<lparr>fc_filename = filename, fc_data = data, fc_mimetype = mimetype,
                  fc_studentId = studentId\<rparr>
           in (case file_create fk d1 studentwalletFile of
                 (Inl e, d2) \<Rightarrow> (Inl e, rollback d d2)
               | (Inr studentFileCreated, d2) \<Rightarrow> (Inr studentFileCreated, d2)))"

definition validateUpdate :: "db \<Rightarrow> int \<Rightarrow> string \<Rightarrow> error + unit" where
  "validateUpdate d i versionStr =
     (if \<not> VERSION_PATTERN_test versionStr then Inl (VersionInvalid versionStr)
      else
        let version = parseInt (slice versionStr 1 (- 1))
        in (case findById d i of
              Inl e \<Rightarrow> Inl e
            | Inr buchDb \<Rightarrow>
                if js_less version (Number (s_version buchDb)) then Inl (VersionOutdated version)
                else Inr ()))"

definition update :: "db \<Rightarrow> int option \<Rightarrow> StudentUpdate \<Rightarrow> string \<Rightarrow> (error + int) \<times> db" where
  "update d id' student version =
     (case id' of
        None \<Rightarrow> (Inl NotFound, d)
      | Some i \<Rightarrow>
          (case validateUpdate d i version of
             Inl e \<Rightarrow> (Inl e, d)
           | Inr _ \<Rightarrow>
               let student' = student\<lparr>u_version := Some (Increment 1)\<rparr>
               in (case student_update d i student' of
                     Inl e \<Rightarrow> (Inl e, d)
                   | Inr (studentUpdated, d') \<Rightarrow> (Inr (s_version studentUpdated), d'))))"

section \<open>Notions of the specification\<close>

text \<open>A string has a parseable integer prefix when, after white space and at most one
  sign, it goes on with a decimal digit.\<close>

definition has_integer_prefix :: "string \<Rightarrow> bool" where
  "has_integer_prefix s =
     (\<exists>ws sg ds rest. s = ws @ sg @ ds @ rest \<and> list_all is_white_space ws \<and>
        (sg = [] \<or> sg = ''+'' \<or> sg = ''-'') \<and> ds \<noteq> [] \<and> list_all is_digit ds)"

text \<open>The format of a version token as the specification words it: a decimal integer
  enclosed in double quotes.\<close>

definition quoted_integer :: "string \<Rightarrow> bool" where
  "quoted_integer s =
     (case s of
        [] \<Rightarrow> False
      | c # r \<Rightarrow>
          c = dquote \<and> r \<noteq> [] \<and> last r = dquote \<and> butlast r \<noteq> [] \<and>
          list_all is_digit (butlast r))"

text \<open>The integer that a run of decimal digits denotes, place by place.\<close>

definition decimal :: "string \<Rightarrow> int" where
  "decimal ds = (\<Sum>i<length ds. digit_value (ds ! i) * 10 ^ (length ds - Suc i))"

text \<open>The predicate that \<open>find\<close> hands to the store, and the page of the rows it
  selects: without search parameters, or with an object that has no property, the rows
  are not filtered.\<close>

definition predicate_of :: "jsobject option \<Rightarrow> StudentWhereInput option" where
  "predicate_of suchparameter =
     (case suchparameter of
        None \<Rightarrow> None
      | Some sp \<Rightarrow> if Object_keys sp = [] then None else Some (build sp))"

definition fetched_page ::
  "text_filter \<Rightarrow> db \<Rightarrow> jsobject option \<Rightarrow> Pageable \<Rightarrow> StudentMitWallet list" where
  "fetched_page ilike d suchparameter pageable =
     map (include_wallet d)
       (take (p_size pageable)
          (drop (p_number pageable * p_size pageable)
             (selected ilike d (predicate_of suchparameter))))"

text \<open>A supplied parameter name that is not recognized, and a supplied \<open>art\<close> that is
  none of the three transaction types. A property whose value is \<open>undefined\<close> counts as
  not supplied.\<close>

definition unknown_name :: "jsobject option \<Rightarrow> bool" where
  "unknown_name suchparameter =
     (case suchparameter of
        None \<Rightarrow> False
      | Some sp \<Rightarrow> list_ex (\<lambda>key. key \<notin> set suchparameterNamen \<and> key \<noteq> ''art'') (Object_keys sp))"

definition unknown_art :: "jsobject option \<Rightarrow> bool" where
  "unknown_art suchparameter =
     (case suchparameter of
        None \<Rightarrow> False
      | Some sp \<Rightarrow>
          get_prop sp ''art'' \<noteq> Undefined \<and>
          get_prop sp ''art'' \<notin> {JString ''LOAD'', JString ''SPEND'', JString ''REFUND''})"

text \<open>Search parameters that the store can evaluate: an \<open>id\<close> and a \<open>semester\<close> that
  parse give a number within the 32 bits of the column, and the database accepts the
  pattern of each text parameter.\<close>

definition supplied_pattern :: "jsval \<Rightarrow> string option" where
  "supplied_pattern v = (if v = Undefined then None else Some (toString v))"

definition evaluable :: "text_filter \<Rightarrow> jsobject option \<Rightarrow> bool" where
  "evaluable ilike suchparameter =
     (case suchparameter of
        None \<Rightarrow> True
      | Some sp \<Rightarrow>
          integer_accepted (toInt (get_prop sp ''id'')) \<and>
          integer_accepted (toInt (get_prop sp ''semester'')) \<and>
          pattern_accepted ilike (supplied_pattern (get_prop sp ''matriculationNumber'')) \<and>
          pattern_accepted ilike (supplied_pattern (get_prop sp ''firstName'')) \<and>
          pattern_accepted ilike (supplied_pattern (get_prop sp ''lastName'')) \<and>
          pattern_accepted ilike (supplied_pattern (get_prop sp ''email'')))"

section \<open>Example data\<close>

text \<open>Two students as in the test data, a patch that changes nothing, the first page
  with five rows, and a version token written with its quotes.\<close>

text \<open>A database for the examples: it refuses a pattern with the code unit 0, and its
  \<open>ILIKE\<close> folds the letters A to Z. In a pattern \<open>%\<close> stands for any run of
  characters, \<open>_\<close> for any one, and a backslash takes the next character literally.\<close>

definition toLowerCase :: "char \<Rightarrow> char" where
  "toLowerCase c =
     (if 65 \<le> (of_char c :: nat) \<and> (of_char c :: nat) \<le> 90 then char_of ((of_char c :: nat) + 32)
      else c)"

fun like :: "string \<Rightarrow> string \<Rightarrow> bool" where
  "like [] t = (t = [])"
| "like (p # ps) t =
     (if p = CHR ''%'' then like ps t \<or> (case t of [] \<Rightarrow> False | c # ts \<Rightarrow> like (p # ps) ts)
      else if p = CHR ''_'' then (case t of [] \<Rightarrow> False | c # ts \<Rightarrow> like ps ts)
      else if p = CHR 0x5C then
        (case ps of
           [] \<Rightarrow> False
         | q # qs \<Rightarrow> (case t of [] \<Rightarrow> False | c # ts \<Rightarrow> c = q \<and> like qs ts))
      else (case t of [] \<Rightarrow> False | c # ts \<Rightarrow> c = p \<and> like ps ts))"

definition example_ilike :: text_filter where
  "example_ilike p =
     (if CHR 0x00 \<in> set p then None
      else Some (\<lambda>column. like (map toLowerCase (''%'' @ p @ ''%'')) (map toLowerCase column)))"

definition quoted :: "string \<Rightarrow> string" where
  "quoted s = dquote # s @ [dquote]"

definition alex :: Student where
  "alex =
     \<lparr>s_id = 1000, s_version = 0, s_matriculationNumber = ''85625'', s_firstName = ''Alex'',
      s_lastName = ''Tatar'', s_email = ''taal1014@stud.hs-ka.de'', s_semester = 2\<rparr>"

definition bob :: Student where
  "bob =
     \<lparr>s_id = 1001, s_version = 3, s_matriculationNumber = ''85635'', s_firstName = ''Bob'',
      s_lastName = ''Kaya'', s_email = ''kabo1011@stud.hs-ka.de'', s_semester = 3\<rparr>"

definition example_db :: db where
  "example_db =
     \<lparr>students = [alex, bob], wallets = [], transactions = [], files = [],
      student_seq = 1002, wallet_seq = 1000, transaction_seq = 1000, file_seq = 1000\<rparr>"

definition no_patch :: StudentUpdate where
  "no_patch =
     \<lparr>u_version = None, u_matriculationNumber = None, u_firstName = None, u_lastName = None,
      u_email = None, u_semester = None\<rparr>"

definition first_page :: Pageable where
  "first_page = \<lparr>p_number = 0, p_size = 5\<rparr>"

definition duplicate_payload :: StudentCreate where
  "duplicate_payload =
     \<lparr>c_matriculationNumber = Some ''85625'', c_firstName = ''Ana'', c_lastName = ''Costa'',
      c_email = ''coan1012@stud.hs-ka.de'', c_semester = 1, c_wallet = None,
      c_transactions = []\<rparr>"

definition second_semester :: jsobject where
  "second_semester = [(''semester'', JString ''2'')]"

definition no_mimetype :: "nat list \<Rightarrow> string option" where
  "no_mimetype data = None"

definition bild :: StudentwalletFile where
  "bild =
     \<lparr>f_id = 1000, f_filename = ''bild.png'', f_data = [], f_mimetype = None,
      f_studentId = 999999\<rparr>"

section \<open>Properties of the filter builder\<close>

lemma build_where_id: "where_id (build sp) = toInt (get_prop sp ''id'')"
  by (simp add: build_def Let_def empty_where_def)
lemma build_where_semester: "where_semester (build sp) = toInt (get_prop sp ''semester'')"
  by (simp add: build_def Let_def empty_where_def)
lemma build_where_transactions:
  "where_transactions (build sp) = (if get_prop sp ''art'' \<noteq> Undefined then Some (get_prop sp ''art'') else None)"
  by (simp add: build_def Let_def empty_where_def)
lemma build_where_matriculationNumber:
  "where_matriculationNumber (build sp) = (if get_prop sp ''matriculationNumber'' \<noteq> Undefined then Some (toString (get_prop sp ''matriculationNumber'')) else None)"
  by (simp add: build_def Let_def empty_where_def)
lemma build_where_firstName:
  "where_firstName (build sp) = (if get_prop sp ''firstName'' \<noteq> Undefined then Some (toString (get_prop sp ''firstName'')) else None)"
  by (simp add: build_def Let_def empty_where_def)
lemma build_where_lastName:
  "where_lastName (build sp) = (if get_prop sp ''lastName'' \<noteq> Undefined then Some (toString (get_prop sp ''lastName'')) else None)"
  by (simp add: build_def Let_def empty_where_def)
lemma build_where_email:
  "where_email (build sp) = (if get_prop sp ''email'' \<noteq> Undefined then Some (toString (get_prop sp ''email'')) else None)"
  by (simp add: build_def Let_def empty_where_def)
lemma build_empty: "build [] = empty_where"
  by (simp add: build_def Let_def empty_where_def get_prop_def)

lemma digit_not_white_space: "is_digit c \<Longrightarrow> \<not> is_white_space c"
  by (auto simp: is_digit_def is_white_space_def)

lemma digit_not_sign: "is_digit c \<Longrightarrow> c \<noteq> CHR ''-'' \<and> c \<noteq> CHR ''+''"
  by (auto simp: is_digit_def)

lemma strip_sign_digit: "is_digit c \<Longrightarrow> strip_sign (c # r) = (False, c # r)"
  using digit_not_sign[of c] by (simp add: strip_sign_def)

lemma takeWhile_digits:
  "list_all is_digit ds \<Longrightarrow> (case rest of [] \<Rightarrow> True | c # _ \<Rightarrow> \<not> is_digit c)
     \<Longrightarrow> takeWhile is_digit (ds @ rest) = ds"
  by (induction ds) (auto split: list.splits)

lemma round_magnitude_small: "m < 2 ^ 53 \<Longrightarrow> round_magnitude m = m"
  by (simp add: round_magnitude_def)

lemma toDouble_exact: "\<bar>i\<bar> < 2 ^ 53 \<Longrightarrow> toDouble i = Number i"
  by (simp add: toDouble_def round_magnitude_small Let_def)

lemma toDouble_2_53: "toDouble (2 ^ 53) = Number (2 ^ 53)"
  by code_simp

lemma toDouble_upto_2_53: "0 \<le> i \<Longrightarrow> i \<le> 2 ^ 53 \<Longrightarrow> toDouble i = Number i"
  using toDouble_exact[of i] toDouble_2_53 by (cases "i = 2 ^ 53") auto

lemma digit_value_range: "is_digit c \<Longrightarrow> 0 \<le> digit_value c \<and> digit_value c \<le> 9"
  by (auto simp: is_digit_def digit_value_def)

lemma toDouble_not_NaN: "toDouble i \<noteq> NaN"
  by (simp add: toDouble_def Let_def)

lemma parseInt_digits:
  assumes "ds \<noteq> []" "list_all is_digit ds" "case rest of [] \<Rightarrow> True | c # _ \<Rightarrow> \<not> is_digit c"
  shows "parseInt (ds @ rest) = toDouble (digits_value ds)"
proof -
  obtain c r where ds: "ds = c # r" using assms(1) by (cases ds) auto
  have c: "is_digit c" using assms(2) ds by simp
  have dw: "dropWhile is_white_space (ds @ rest) = ds @ rest"
    using digit_not_white_space[OF c] ds by simp
  have ss: "strip_sign (ds @ rest) = (False, ds @ rest)"
    using strip_sign_digit[OF c] ds by simp
  show ?thesis
    using assms by (simp add: parseInt_def dw ss takeWhile_digits)
qed

lemma takeWhile_digits_nonempty:
  "ds \<noteq> [] \<Longrightarrow> list_all is_digit ds \<Longrightarrow> takeWhile is_digit (ds @ rest) \<noteq> []"
  by (cases ds) auto

lemma dropWhile_white_space:
  "list_all is_white_space ws \<Longrightarrow> (case z of [] \<Rightarrow> True | c # _ \<Rightarrow> \<not> is_white_space c)
     \<Longrightarrow> dropWhile is_white_space (ws @ z) = z"
  by (induction ws) (auto split: list.splits)

lemma sign_not_white_space: "\<not> is_white_space CHR ''-''" "\<not> is_white_space CHR ''+''"
  by (simp_all add: is_white_space_def)

lemma parseInt_prefix:
  assumes "has_integer_prefix s"
  shows "parseInt s \<noteq> NaN"
proof -
  from assms obtain ws sg ds rest where s: "s = ws @ sg @ ds @ rest"
    and ws: "list_all is_white_space ws" and sg: "sg = [] \<or> sg = ''+'' \<or> sg = ''-''"
    and ds: "ds \<noteq> []" "list_all is_digit ds"
    unfolding has_integer_prefix_def by blast
  obtain c r where dsc: "ds = c # r" using ds(1) by (cases ds) auto
  have c: "is_digit c" using ds(2) dsc by simp
  have "case sg @ ds @ rest of [] \<Rightarrow> True | c # _ \<Rightarrow> \<not> is_white_space c"
    using sg dsc digit_not_white_space[OF c] sign_not_white_space by auto
  then have dw: "dropWhile is_white_space s = sg @ ds @ rest"
    unfolding s using dropWhile_white_space[OF ws] by blast
  have "snd (strip_sign (sg @ ds @ rest)) = ds @ rest"
    using sg strip_sign_digit[OF c] dsc by (auto simp: strip_sign_def)
  then obtain n where "strip_sign (sg @ ds @ rest) = (n, ds @ rest)"
    by (cases "strip_sign (sg @ ds @ rest)") auto
  then show ?thesis
    using takeWhile_digits_nonempty[OF ds, of rest]
    by (simp add: parseInt_def dw Let_def toDouble_not_NaN)
qed

lemma strip_sign_decomp:
  "\<exists>sg. (sg = [] \<or> sg = ''+'' \<or> sg = ''-'') \<and> z = sg @ snd (strip_sign z)"
  by (cases z) (auto simp: strip_sign_def)

lemma parseInt_not_NaN:
  assumes "parseInt s \<noteq> NaN"
  shows "has_integer_prefix s"
proof -
  define ws where "ws = takeWhile is_white_space s"
  define z where "z = dropWhile is_white_space s"
  define y where "y = snd (strip_sign z)"
  define ds where "ds = takeWhile is_digit y"
  define rest where "rest = dropWhile is_digit y"
  obtain sg where sg: "sg = [] \<or> sg = ''+'' \<or> sg = ''-''" "z = sg @ y"
    using strip_sign_decomp[of z] y_def by blast
  have "ds \<noteq> []"
    using assms by (auto simp: parseInt_def ds_def y_def z_def split: prod.splits if_splits)
  moreover have "s = ws @ sg @ ds @ rest"
    by (metis ws_def z_def sg(2) ds_def rest_def takeWhile_dropWhile_id)
  moreover have "list_all is_white_space ws"
    by (simp add: ws_def list_all_iff) (meson set_takeWhileD)
  moreover have "list_all is_digit ds"
    by (simp add: ds_def list_all_iff) (meson set_takeWhileD)
  ultimately show ?thesis
    unfolding has_integer_prefix_def using sg(1) by blast
qed

lemma toInt_JString:
  "toInt (JString s) = (if parseInt s = NaN then None else Some (parseInt s))"
  by (simp add: isNaN_def)

lemma matches_empty_where: "matches ilike d empty_where s"
  by (simp add: matches_def text_matches_def empty_where_def)

lemma digits_value_snoc: "digits_value (ds @ [c]) = 10 * digits_value ds + digit_value c"
  by (simp add: digits_value_def)

lemma digits_value_bounds:
  "list_all is_digit ds \<Longrightarrow> 0 \<le> digits_value ds \<and> digits_value ds < 10 ^ length ds"
proof (induction ds rule: rev_induct)
  case Nil
  then show ?case by (simp add: digits_value_def)
next
  case (snoc c ds)
  then have "0 \<le> digits_value ds" "digits_value ds < 10 ^ length ds"
    "0 \<le> digit_value c" "digit_value c \<le> 9"
    using digit_value_range[of c] by simp_all
  then show ?case
    by (simp add: digits_value_snoc)
qed

lemma digits_value_nonneg: "list_all is_digit ds \<Longrightarrow> 0 \<le> digits_value ds"
  using digits_value_bounds by blast

lemma decimal_snoc: "decimal (ds @ [c]) = 10 * decimal ds + digit_value c"
proof -
  have "(\<Sum>i<length ds. digit_value ((ds @ [c]) ! i) * 10 ^ (length ds - i))
          = (\<Sum>i<length ds. 10 * (digit_value (ds ! i) * 10 ^ (length ds - Suc i)))"
  proof (rule sum.cong)
    fix i assume "i \<in> {..<length ds}"
    then have "length ds - i = Suc (length ds - Suc i)"
      by auto
    then show "digit_value ((ds @ [c]) ! i) * 10 ^ (length ds - i)
                 = 10 * (digit_value (ds ! i) * 10 ^ (length ds - Suc i))"
      using \<open>i \<in> {..<length ds}\<close> by (simp add: nth_append)
  qed simp
  then show ?thesis
    by (simp add: decimal_def sum_distrib_left)
qed

lemma digits_value_decimal: "digits_value ds = decimal ds"
proof (induction ds rule: rev_induct)
  case Nil
  show ?case by (simp add: digits_value_def decimal_def)
next
  case (snoc c ds)
  then show ?case by (simp add: digits_value_snoc decimal_snoc)
qed

text \<open>
  C6. \<open>WhereBuilder.build\<close> is a total function into the predicates, with no error among
  its results. A field that is absent from the input is absent from the predicate; an
  \<open>id\<close> or \<open>semester\<close> whose string does not parse as an integer is left out; and the
  empty input gives the empty predicate, which every student satisfies.
\<close>

theorem build_never_raises_and_omits:
  "(get_prop sp ''id'' = Undefined \<longrightarrow> where_id (build sp) = None) \<and>
   (get_prop sp ''matriculationNumber'' = Undefined \<longrightarrow> where_matriculationNumber (build sp) = None) \<and>
   (get_prop sp ''firstName'' = Undefined \<longrightarrow> where_firstName (build sp) = None) \<and>
   (get_prop sp ''lastName'' = Undefined \<longrightarrow> where_lastName (build sp) = None) \<and>
   (get_prop sp ''email'' = Undefined \<longrightarrow> where_email (build sp) = None) \<and>
   (get_prop sp ''semester'' = Undefined \<longrightarrow> where_semester (build sp) = None) \<and>
   (get_prop sp ''art'' = Undefined \<longrightarrow> where_transactions (build sp) = None) \<and>
   (\<forall>s. get_prop sp ''id'' = JString s \<and> parseInt s = NaN \<longrightarrow> where_id (build sp) = None) \<and>
   (\<forall>s. get_prop sp ''semester'' = JString s \<and> parseInt s = NaN
        \<longrightarrow> where_semester (build sp) = None) \<and>
   build [] = empty_where \<and>
   (\<forall>ilike d s. matches ilike d (build []) s)"
  by (simp add: build_where_id build_where_semester build_where_transactions
      build_where_matriculationNumber build_where_firstName build_where_lastName
      build_where_email build_empty toInt_JString matches_empty_where del: toInt.simps(2))

text \<open>The builder on \<open>{ id: "abc", firstName: "ale" }\<close>.\<close>

theorem build_never_raises_and_omits_witness:
  "where_id (build [(''id'', JString ''abc''), (''firstName'', JString ''ale'')]) = None \<and>
   where_semester (build [(''id'', JString ''abc''), (''firstName'', JString ''ale'')]) = None \<and>
   where_transactions (build [(''id'', JString ''abc''), (''firstName'', JString ''ale'')]) = None"
  using build_never_raises_and_omits [of "[(''id'', JString ''abc''), (''firstName'', JString ''ale'')]"]
  by (simp add: get_prop_def parseInt_def strip_sign_def is_digit_def is_white_space_def)

text \<open>
  C9, as the code has it. When the string given for \<open>id\<close> or \<open>semester\<close> starts with
  decimal digits and goes on with something that is no digit, as \<open>3abc\<close> does, the field
  is not left out: the predicate asks for equality with the double that
  \<open>Number.parseInt\<close> reads from the digits, and that is the integer of the digits
  whenever this is at most \<open>2^53\<close>. A string is left out only when it has no parseable
  integer prefix.
\<close>

theorem build_keeps_integer_prefix:
  assumes "ds \<noteq> []" and "list_all is_digit ds"
    and "case rest of [] \<Rightarrow> True | c # _ \<Rightarrow> \<not> is_digit c"
  shows "(get_prop sp ''id'' = JString (ds @ rest) \<longrightarrow>
            where_id (build sp) = Some (toDouble (decimal ds)) \<and>
            (decimal ds \<le> 2 ^ 53 \<longrightarrow> where_id (build sp) = Some (Number (decimal ds)))) \<and>
         (get_prop sp ''semester'' = JString (ds @ rest) \<longrightarrow>
            where_semester (build sp) = Some (toDouble (decimal ds)) \<and>
            (decimal ds \<le> 2 ^ 53 \<longrightarrow> where_semester (build sp) = Some (Number (decimal ds)))) \<and>
         (\<forall>s. get_prop sp ''id'' = JString s
            \<longrightarrow> (where_id (build sp) = None \<longleftrightarrow> \<not> has_integer_prefix s)) \<and>
         (\<forall>s. get_prop sp ''semester'' = JString s
            \<longrightarrow> (where_semester (build sp) = None \<longleftrightarrow> \<not> has_integer_prefix s))"
proof -
  have iff: "parseInt s = NaN \<longleftrightarrow> \<not> has_integer_prefix s" for s
    using parseInt_prefix[of s] parseInt_not_NaN[of s] by blast
  have p: "parseInt (ds @ rest) = toDouble (decimal ds)"
    using parseInt_digits[OF assms] by (simp add: digits_value_decimal)
  have nonneg: "0 \<le> decimal ds"
    using digits_value_nonneg[OF assms(2)] by (simp add: digits_value_decimal)
  have exact: "decimal ds \<le> 2 ^ 53 \<Longrightarrow> toDouble (decimal ds) = Number (decimal ds)"
    using toDouble_upto_2_53[OF nonneg] by simp
  show ?thesis
    using p exact iff toDouble_not_NaN[of "decimal ds"]
    by (simp add: build_where_id build_where_semester toInt_JString del: toInt.simps(2))
qed

text \<open>The builder on \<open>{ id: "1234abc" }\<close> and on \<open>{ semester: "0042 x" }\<close>.\<close>

theorem build_keeps_integer_prefix_witness:
  "where_id (build [(''id'', JString ''1234abc'')]) = Some (Number 1234) \<and>
   where_semester (build [(''semester'', JString ''0042 x'')]) = Some (Number 42)"
proof -
  have d: "decimal ''1234'' = 1234" "decimal ''0042'' = 42"
    unfolding digits_value_decimal[symmetric] by code_simp+
  have g: "get_prop [(''id'', JString ''1234abc'')] ''id'' = JString (''1234'' @ ''abc'')"
    "get_prop [(''semester'', JString ''0042 x'')] ''semester'' = JString (''0042'' @ '' x'')"
    by (simp_all add: get_prop_def)
  have a: "list_all is_digit ''1234''" "list_all is_digit ''0042''"
    "\<not> is_digit CHR ''a''" "\<not> is_digit CHR '' ''"
    by (simp_all add: is_digit_def)
  have e: "toDouble 1234 = Number 1234" "toDouble 42 = Number 42"
    by (simp_all add: toDouble_exact)
  show ?thesis
    using build_keeps_integer_prefix [of "''1234''" "''abc''" "[(''id'', JString ''1234abc'')]"]
      build_keeps_integer_prefix [of "''0042''" "'' x''" "[(''semester'', JString ''0042 x'')]"]
      d g a e
    by simp
qed

text \<open>C9 as stated fails: the prefix of \<open>9007199254740993abc\<close> is the integer
  \<open>2^53 + 1\<close>, and the predicate asks for equality with \<open>2^53\<close>.\<close>

theorem build_rounds_integer_prefix_counterexample:
  "decimal ''9007199254740993'' = 9007199254740993 \<and>
   where_id (build [(''id'', JString ''9007199254740993abc'')]) = Some (Number 9007199254740992)"
proof -
  have "decimal ''9007199254740993'' = 9007199254740993"
    unfolding digits_value_decimal[symmetric] by code_simp
  moreover have
    "where_id (build [(''id'', JString ''9007199254740993abc'')]) = Some (Number 9007199254740992)"
    by code_simp
  ultimately show ?thesis
    by blast
qed

lemma get_prop_keys: "get_prop sp k \<noteq> Undefined \<Longrightarrow> Object_keys sp \<noteq> []"
  by (cases sp) (auto simp: get_prop_def Object_keys_def)

lemma checkEnums_JString:
  "get_prop sp ''art'' = JString a \<Longrightarrow> checkEnums sp = (a \<in> set TransactionType_values)"
  by (auto simp: checkEnums_def Let_def)

lemma matches_transactions:
  "matches ilike d w s \<Longrightarrow> where_transactions w = Some (JString a)
     \<Longrightarrow> list_ex (\<lambda>t. t_studentId t = s_id s \<and> t_type t = a) (transactions d)"
  by (simp add: matches_def)

text \<open>
  C10. The builder does not validate \<open>art\<close>: for every string, also one outside
  \<open>LOAD\<close>, \<open>SPEND\<close> and \<open>REFUND\<close>, the predicate asks for some transaction of the
  student whose type is that very string. Membership in the enumeration is checked by
  \<open>find\<close>, which answers \<open>NotFound\<close> for such a string.
\<close>

theorem build_art_unchecked:
  assumes "get_prop sp ''art'' = JString a"
  shows "where_transactions (build sp) = Some (JString a) \<and>
         (\<forall>ilike d s. matches ilike d (build sp) s
            \<longrightarrow> list_ex (\<lambda>t. t_studentId t = s_id s \<and> t_type t = a) (transactions d)) \<and>
         (a \<notin> set TransactionType_values
            \<longrightarrow> (\<forall>ilike d pageable. find' ilike d (Some sp) pageable = Inl NotFound))"
proof -
  have w: "where_transactions (build sp) = Some (JString a)"
    using assms by (simp add: build_where_transactions)
  have keys: "Object_keys sp \<noteq> []"
    using assms get_prop_keys[of sp "''art''"] by simp
  have "find' ilike d (Some sp) pageable = Inl NotFound"
    if "a \<notin> set TransactionType_values" for ilike d pageable
    using that keys checkEnums_JString[OF assms] by (simp add: find'_def Let_def)
  then show ?thesis
    using w matches_transactions by blast
qed

text \<open>The builder and \<open>find\<close> on \<open>{ art: "FOO" }\<close>.\<close>

theorem build_art_unchecked_witness:
  "where_transactions (build [(''art'', JString ''FOO'')]) = Some (JString ''FOO'') \<and>
   find' example_ilike example_db (Some [(''art'', JString ''FOO'')]) first_page = Inl NotFound"
  using build_art_unchecked [of "[(''art'', JString ''FOO'')]" "''FOO''"]
  by (simp add: get_prop_def TransactionType_values_def)

section \<open>Properties of the read service\<close>

lemma checkKeys_unknown_name: "checkKeys (Object_keys sp) \<longleftrightarrow> \<not> unknown_name (Some sp)"
  by (auto simp: checkKeys_def unknown_name_def list_all_iff list_ex_iff)

lemma checkEnums_unknown_art: "checkEnums sp \<longleftrightarrow> \<not> unknown_art (Some sp)"
  by (auto simp: checkEnums_def unknown_art_def Let_def TransactionType_values_def)

lemma no_keys:
  "Object_keys sp = [] \<Longrightarrow>
     \<not> unknown_name (Some sp) \<and> \<not> unknown_art (Some sp) \<and> evaluable ilike (Some sp)"
  by (simp add: unknown_name_def unknown_art_def evaluable_def supplied_pattern_def
      pattern_accepted_def Object_keys_def get_prop_def)

lemma build_pattern:
  "where_matriculationNumber (build sp) = supplied_pattern (get_prop sp ''matriculationNumber'')"
  "where_firstName (build sp) = supplied_pattern (get_prop sp ''firstName'')"
  "where_lastName (build sp) = supplied_pattern (get_prop sp ''lastName'')"
  "where_email (build sp) = supplied_pattern (get_prop sp ''email'')"
  by (simp_all add: supplied_pattern_def build_where_matriculationNumber build_where_firstName
      build_where_lastName build_where_email)

lemma where_accepted_build:
  "where_accepted ilike (build sp) \<longleftrightarrow> evaluable ilike (Some sp) \<and> \<not> unknown_art (Some sp)"
  by (auto simp: where_accepted_def evaluable_def unknown_art_def build_pattern build_where_id
      build_where_semester build_where_transactions TransactionType_values_def)

lemma student_findMany_None:
  "student_findMany ilike d None (p_number pageable * p_size pageable) (p_size pageable)
     = Inr (fetched_page ilike d None pageable)"
  by (simp add: student_findMany_def fetched_page_def predicate_of_def)

lemma student_findMany_build:
  "Object_keys sp \<noteq> [] \<Longrightarrow>
     student_findMany ilike d (Some (build sp)) (p_number pageable * p_size pageable)
       (p_size pageable)
     = (if where_accepted ilike (build sp) then Inr (fetched_page ilike d (Some sp) pageable)
        else Inl StoreError)"
  by (simp add: student_findMany_def fetched_page_def predicate_of_def)

lemma findAll_result:
  "findAll ilike d pageable =
     (if fetched_page ilike d None pageable = [] then Inl NotFound
      else Inr (createSlice (fetched_page ilike d None pageable) (count d)))"
  by (simp add: findAll_def student_findMany_None)

text \<open>The three outcomes of \<open>find\<close>.\<close>

lemma find_result:
  "find' ilike d suchparameter pageable =
     (if unknown_name suchparameter \<or> unknown_art suchparameter then Inl NotFound
      else if \<not> evaluable ilike suchparameter then Inl StoreError
      else if fetched_page ilike d suchparameter pageable = [] then Inl NotFound
      else Inr (createSlice (fetched_page ilike d suchparameter pageable) (count d)))"
proof (cases suchparameter)
  case None
  then show ?thesis
    by (simp add: find'_def findAll_result unknown_name_def unknown_art_def evaluable_def)
next
  case (Some sp)
  show ?thesis
  proof (cases "Object_keys sp = []")
    case True
    have "fetched_page ilike d (Some sp) pageable = fetched_page ilike d None pageable"
      using True by (simp add: fetched_page_def predicate_of_def)
    then show ?thesis
      using True no_keys[OF True, of ilike] by (simp add: Some find'_def findAll_result Let_def)
  next
    case False
    show ?thesis
    proof (cases "unknown_name (Some sp) \<or> unknown_art (Some sp)")
      case True
      then show ?thesis
        using False
        by (simp add: Some find'_def Let_def checkKeys_unknown_name checkEnums_unknown_art)
    next
      case ok: False
      show ?thesis
      proof (cases "evaluable ilike (Some sp)")
        case True
        then have "where_accepted ilike (build sp)"
          using ok by (simp add: where_accepted_build)
        then show ?thesis
          using False ok True
          by (simp add: Some find'_def Let_def checkKeys_unknown_name checkEnums_unknown_art
              student_findMany_build)
      next
        case no: False
        then have "\<not> where_accepted ilike (build sp)"
          by (simp add: where_accepted_build)
        then show ?thesis
          using False ok no
          by (simp add: Some find'_def Let_def checkKeys_unknown_name checkEnums_unknown_art
              student_findMany_build)
      qed
    qed
  qed
qed

lemma fetched_page_empty:
  "fetched_page ilike d suchparameter pageable = [] \<longleftrightarrow>
     p_size pageable = 0 \<or>
     length (selected ilike d (predicate_of suchparameter)) \<le> p_number pageable * p_size pageable"
  by (auto simp: fetched_page_def)

text \<open>
  C5, as the code has it. For search parameters that the store can evaluate, \<open>find\<close>
  fails with \<open>NotFound\<close> exactly when a supplied parameter name is not recognized, or
  \<open>art\<close> is supplied with a value outside \<open>LOAD\<close>, \<open>SPEND\<close>, \<open>REFUND\<close>, or the
  fetched page is empty. The page is empty when its size is 0 or when it starts at or past
  the end of the selected rows. In every other case \<open>find\<close> returns a slice whose content
  is the fetched page and is not empty.
\<close>

theorem find_NotFound_iff:
  assumes "evaluable ilike suchparameter"
  shows
    "(find' ilike d suchparameter pageable = Inl NotFound \<longleftrightarrow>
        unknown_name suchparameter \<or> unknown_art suchparameter \<or>
        fetched_page ilike d suchparameter pageable = []) \<and>
     (fetched_page ilike d suchparameter pageable = [] \<longleftrightarrow>
        p_size pageable = 0 \<or>
        length (selected ilike d (predicate_of suchparameter))
          \<le> p_number pageable * p_size pageable) \<and>
     (find' ilike d suchparameter pageable \<noteq> Inl NotFound \<longrightarrow>
        (\<exists>r. find' ilike d suchparameter pageable = Inr r \<and> content r \<noteq> [] \<and>
           content r = fetched_page ilike d suchparameter pageable))"
  using assms by (simp add: find_result createSlice_def fetched_page_empty)

lemma example_queries_evaluable:
  "evaluable example_ilike (Some [(''foo'', JString ''bar'')])"
  "evaluable example_ilike (Some second_semester)"
  by code_simp+

text \<open>\<open>find\<close> on \<open>{ foo: "bar" }\<close> and on \<open>{ semester: "2" }\<close>.\<close>

theorem find_NotFound_iff_witness:
  "find' example_ilike example_db (Some [(''foo'', JString ''bar'')]) first_page = Inl NotFound \<and>
   (\<exists>r. find' example_ilike example_db (Some second_semester) first_page = Inr r \<and>
      content r \<noteq> [])"
proof -
  have 1: "unknown_name (Some [(''foo'', JString ''bar'')])"
    by (simp add: unknown_name_def Object_keys_def suchparameterNamen_def)
  have 2: "find' example_ilike example_db (Some second_semester) first_page \<noteq> Inl NotFound"
    by code_simp
  show ?thesis
    using find_NotFound_iff [OF example_queries_evaluable(1), of example_db first_page] 1
      find_NotFound_iff [OF example_queries_evaluable(2), of example_db first_page] 2
    by blast
qed

text \<open>C5 as stated fails: \<open>{ id: "2147483648" }\<close> has a recognized name and no \<open>art\<close>,
  and \<open>find\<close> ends with the error of the store for a number beyond the column, which is
  neither \<open>NotFound\<close> nor a slice.\<close>

theorem find_id_out_of_range_counterexample:
  "\<not> unknown_name (Some [(''id'', JString ''2147483648'')]) \<and>
   \<not> unknown_art (Some [(''id'', JString ''2147483648'')]) \<and>
   find' example_ilike example_db (Some [(''id'', JString ''2147483648'')]) first_page
     = Inl StoreError"
  by code_simp

text \<open>
  C8, as the code has it. The \<open>totalElements\<close> of a slice that \<open>find\<close> returns is the
  number of all students in the store, which is what \<open>count()\<close> gives, whether they
  match the predicate or not.
\<close>

theorem find_totalElements:
  "find' ilike d suchparameter pageable = Inr r \<Longrightarrow> totalElements r = length (students d)"
  by (auto simp: find_result createSlice_def count_def student_count_def split: if_splits)

text \<open>\<open>find\<close> on \<open>{ semester: "2" }\<close> over the two students.\<close>

theorem find_totalElements_witness:
  "find' example_ilike example_db (Some second_semester) first_page
     = Inr \<lparr>content = [(alex, None)], totalElements = 2\<rparr> \<and>
   totalElements \<lparr>content = [(alex, None)], totalElements = 2\<rparr> = length (students example_db)"
proof -
  have 1: "find' example_ilike example_db (Some second_semester) first_page
             = Inr \<lparr>content = [(alex, None)], totalElements = 2\<rparr>"
    by code_simp
  show ?thesis
    using 1 find_totalElements [OF 1] by blast
qed

text \<open>C8 as stated fails: \<open>{ semester: "2" }\<close> selects one of the two students, and the
  slice reports two elements in total.\<close>

theorem find_totalElements_counterexample:
  "find' example_ilike example_db (Some second_semester) first_page
     = Inr \<lparr>content = [(alex, None)], totalElements = 2\<rparr> \<and>
   filter (matches example_ilike example_db (build second_semester)) (students example_db)
     = [alex]"
  by code_simp

section \<open>Properties of the write service\<close>

lemma count_matriculationNumber_pos:
  "list_ex (\<lambda>s. s_matriculationNumber s = m) (students d)
     \<Longrightarrow> student_count_matriculationNumber d m > 0"
  by (auto simp: student_count_matriculationNumber_def list_ex_iff filter_empty_conv)

text \<open>
  C4. When the matriculation number of the payload already belongs to a student in the
  store, \<open>create\<close> fails with \<open>MatrNrExists\<close> and the store is as before; in
  particular the number of students is unchanged.
\<close>

theorem create_existing_matriculationNumber:
  assumes "c_matriculationNumber student = Some m"
    and "list_ex (\<lambda>s. s_matriculationNumber s = m) (students d)"
  shows "create d student = (Inl (MatrNrExists m), d) \<and>
         student_count (snd (create d student)) = student_count d"
  using assms count_matriculationNumber_pos[OF assms(2)]
  by (simp add: create_def validateCreate_def Let_def)

text \<open>A payload with the matriculation number of the first student.\<close>

theorem create_existing_matriculationNumber_witness:
  "create example_db duplicate_payload = (Inl (MatrNrExists ''85625''), example_db) \<and>
   student_count (snd (create example_db duplicate_payload)) = student_count example_db"
  using create_existing_matriculationNumber [of duplicate_payload "''85625''" example_db]
  by (simp add: duplicate_payload_def example_db_def alex_def bob_def)

text \<open>A token that passes the format check always parses, to a number from 0 to 999:
  the comparison of \<open>validateUpdate\<close> never meets \<open>NaN\<close>.\<close>

lemma slice_inner: "slice (c # r) 1 (- 1) = butlast r"
proof -
  have "nat (int (length r) - 1) = length r - 1"
    by simp
  then show ?thesis
    by (cases "r = []") (simp_all add: slice_def butlast_conv_take del: of_nat_diff)
qed

lemma not_digit_dquote: "\<not> is_digit dquote"
  by (simp add: is_digit_def dquote_def)

lemma digits_then_quote_parse:
  assumes "digits_then_quote k r" and "0 < k"
  shows "parseInt (butlast r) = toDouble (digits_value (take k r))"
proof -
  have k: "k < length r" and ds: "list_all is_digit (take k r)" and q: "r ! k = dquote"
    using assms(1) by (simp_all add: digits_then_quote_def)
  have r: "r = take k r @ dquote # drop (Suc k) r"
    using k q by (metis append_take_drop_id Cons_nth_drop_Suc)
  have "butlast r = take k r @ butlast (dquote # drop (Suc k) r)"
    by (subst r) (simp add: butlast_append)
  moreover have "take k r \<noteq> []"
    using k assms(2) by auto
  moreover have "case butlast (dquote # drop (Suc k) r) of [] \<Rightarrow> True | c # _ \<Rightarrow> \<not> is_digit c"
    using not_digit_dquote by simp
  ultimately show ?thesis
    using parseInt_digits[OF _ ds] by simp
qed

lemma VERSION_PATTERN_parses:
  assumes "VERSION_PATTERN_test v"
  shows "\<exists>n. parseInt (slice v 1 (- 1)) = Number n \<and> 0 \<le> n \<and> n \<le> 999"
proof -
  from assms obtain c r k where v: "v = c # r" and k: "digits_then_quote k r" "0 < k" "k \<le> 3"
    by (cases v) (auto simp: VERSION_PATTERN_test_def)
  have len: "length (take k r) = k" and ds: "list_all is_digit (take k r)"
    using k(1) by (simp_all add: digits_then_quote_def)
  have "digits_value (take k r) < 10 ^ k"
    using digits_value_bounds[OF ds] len by simp
  moreover have "(10::int) ^ k \<le> 10 ^ 3"
    using k(3) by (intro power_increasing) simp_all
  ultimately have b: "digits_value (take k r) \<le> 999"
    by simp
  then have "toDouble (digits_value (take k r)) = Number (digits_value (take k r))"
    using digits_value_bounds[OF ds] by (intro toDouble_exact) simp
  then show ?thesis
    using digits_then_quote_parse[OF k(1,2)] digits_value_bounds[OF ds] b
    by (simp add: v slice_inner)
qed




lemma validateUpdate_outdated:
  assumes "findById d i = Inr s" and "VERSION_PATTERN_test v"
    and "parseInt (slice v 1 (- 1)) = Number n" and "n < s_version s"
  shows "validateUpdate d i v = Inl (VersionOutdated (Number n))"
  using assms by (simp add: validateUpdate_def)


lemma example_findById:
  "findById example_db 1000 = Inr alex" "findById example_db 1001 = Inr bob"
  by (simp_all add: findById_def student_findUnique_def example_db_def alex_def bob_def)

lemma quoted_digit_pattern: "is_digit c \<Longrightarrow> VERSION_PATTERN_test (quoted [c])"
  by (simp add: VERSION_PATTERN_test_def digits_then_quote_def quoted_def)

lemma quoted_digit_parse:
  assumes "is_digit c"
  shows "parseInt (slice (quoted [c]) 1 (- 1)) = Number (digit_value c)"
proof -
  have "toDouble (digit_value c) = Number (digit_value c)"
    using digit_value_range[OF assms] by (intro toDouble_exact) simp
  then show ?thesis
    using assms parseInt_digits[of "[c]" "[]"]
    by (simp add: quoted_def slice_def digits_value_def)
qed

lemma is_digit_examples: "is_digit CHR ''0''" "is_digit CHR ''2''" "is_digit CHR ''3''"
  by (simp_all add: is_digit_def)

text \<open>
  C1, as the code has it. For an existing student, when the version token passes the
  format check and the number parsed from it is less than the stored version, \<open>update\<close>
  fails with \<open>VersionOutdated\<close>, and the store, hence the student and its version, is
  as before.
\<close>

theorem update_outdated_version:
  assumes "findById d i = Inr s" and "VERSION_PATTERN_test v"
    and "parseInt (slice v 1 (- 1)) = Number n" and "n < s_version s"
  shows "update d (Some i) student v = (Inl (VersionOutdated (Number n)), d) \<and>
         findById (snd (update d (Some i) student v)) i = Inr s"
  using assms(1) validateUpdate_outdated[OF assms] by (simp add: update_def)

text \<open>The token \<open>"2"\<close> for the student whose version is 3.\<close>

theorem update_outdated_version_witness:
  "update example_db (Some 1001) no_patch (quoted ''2'')
     = (Inl (VersionOutdated (Number 2)), example_db) \<and>
   findById (snd (update example_db (Some 1001) no_patch (quoted ''2''))) 1001 = Inr bob"
proof -
  have p: "parseInt (slice (quoted ''2'') 1 (- 1)) = Number 2"
    using quoted_digit_parse[OF is_digit_examples(2)] by (simp add: digit_value_def)
  have v: "2 < s_version bob"
    by (simp add: bob_def)
  show ?thesis
    by (rule update_outdated_version
        [OF example_findById(2) quoted_digit_pattern[OF is_digit_examples(2)] p v])
qed

text \<open>C1 as stated fails: the token \<open>"-1"\<close> parses to \<open>-1\<close>, which is less than the stored
  version 0, but it does not pass the format check, and \<open>update\<close> fails with
  \<open>VersionInvalid\<close>.\<close>

theorem update_negative_token_counterexample:
  "findById example_db 1000 = Inr alex \<and>
   parseInt (slice (quoted ''-1'') 1 (- 1)) = Number (- 1) \<and>
   - 1 < s_version alex \<and>
   update example_db (Some 1000) no_patch (quoted ''-1'')
     = (Inl (VersionInvalid (quoted ''-1'')), example_db)"
  by code_simp





lemma validateUpdate_VersionInvalid:
  assumes "validateUpdate d i v = Inl (VersionInvalid x)"
  shows "\<not> VERSION_PATTERN_test v"
proof
  assume p: "VERSION_PATTERN_test v"
  show False
  proof (cases "findById d i")
    case (Inl e)
    then have "e = NotFound"
      by (simp add: findById_def split: option.splits)
    with Inl p assms show False
      by (simp add: validateUpdate_def)
  next
    case (Inr s)
    with p assms show False
      by (simp add: validateUpdate_def Let_def split: if_splits)
  qed
qed

lemma student_update_error: "student_update d i data = Inl e \<Longrightarrow> e = StoreError"
  by (simp add: student_update_def Let_def split: option.splits if_splits)

lemma update_errors:
  assumes "fst (update d (Some i) student v) = Inl (VersionInvalid x)"
  shows "\<not> VERSION_PATTERN_test v"
proof (cases "validateUpdate d i v")
  case (Inl e)
  with assms have "e = VersionInvalid x"
    by (simp add: update_def)
  with Inl show ?thesis
    using validateUpdate_VersionInvalid by blast
next
  case (Inr u)
  show ?thesis
  proof (cases "student_update d i (student\<lparr>u_version := Some (Increment 1)\<rparr>)")
    case (Inl e)
    with Inr assms student_update_error[OF Inl] show ?thesis
      by (simp add: update_def)
  next
    case (Inr r)
    with \<open>validateUpdate d i v = Inr u\<close> assms show ?thesis
      by (simp add: update_def split: prod.splits)
  qed
qed

lemma quoted_integer_Cons:
  "quoted_integer (c # r) \<longleftrightarrow>
     c = dquote \<and> r \<noteq> [] \<and> last r = dquote \<and> butlast r \<noteq> [] \<and> list_all is_digit (butlast r)"
  unfolding quoted_integer_def by (simp only: list.case)

lemma quoted_integer_pattern:
  assumes "quoted_integer v" and "length v \<le> 5"
  shows "VERSION_PATTERN_test v"
proof (cases v)
  case Nil
  with assms(1) show ?thesis
    by (simp add: quoted_integer_def)
next
  case (Cons c r)
  have c: "c = dquote" and r: "r \<noteq> []" "last r = dquote" "butlast r \<noteq> []"
    "list_all is_digit (butlast r)"
    using assms(1) unfolding Cons quoted_integer_Cons by blast+
  define k where "k = length (butlast r)"
  have len: "length r = Suc k"
    using r(1) by (simp add: k_def)
  have "length r \<le> 4"
    using assms(2) Cons by simp
  moreover have "k \<noteq> 0"
    using r(3) by (simp only: k_def length_0_conv not_False_eq_True)
  ultimately have k: "k = 1 \<or> k = 2 \<or> k = 3"
    using len by arith
  have "take k r = butlast r"
    using len by (simp add: k_def butlast_conv_take)
  moreover have "r ! k = dquote"
    using r(1,2) len by (simp add: last_conv_nth)
  ultimately have "digits_then_quote k r"
    using r(4) len by (simp add: digits_then_quote_def)
  with k have "digits_then_quote 3 r \<or> digits_then_quote 2 r \<or> digits_then_quote 1 r"
    by blast
  then show ?thesis
    unfolding Cons VERSION_PATTERN_test_def using c by (simp only: list.case simp_thms)
qed

text \<open>
  C3, as the code has it. With an identifier given, \<open>update\<close> fails with
  \<open>VersionInvalid\<close> whenever the token does not begin with a double quote, one to three
  decimal digits and a double quote; and a token that is one to three decimal digits
  enclosed in double quotes passes the format check, so that \<open>update\<close> does not fail with
  \<open>VersionInvalid\<close>.
\<close>

theorem update_version_format:
  "(\<not> VERSION_PATTERN_test v
      \<longrightarrow> update d (Some i) student v = (Inl (VersionInvalid v), d)) \<and>
   (quoted_integer v \<and> length v \<le> 5
      \<longrightarrow> VERSION_PATTERN_test v \<and>
          (\<forall>x. fst (update d (Some i) student v) \<noteq> Inl (VersionInvalid x)))"
proof -
  have "update d (Some i) student v = (Inl (VersionInvalid v), d)"
    if "\<not> VERSION_PATTERN_test v"
    using that by (simp add: update_def validateUpdate_def)
  moreover have "VERSION_PATTERN_test v \<and>
      (\<forall>x. fst (update d (Some i) student v) \<noteq> Inl (VersionInvalid x))"
    if "quoted_integer v \<and> length v \<le> 5"
    using that quoted_integer_pattern[of v] update_errors[of d i student v] by blast
  ultimately show ?thesis
    by blast
qed

lemma quoted_integer_digit: "is_digit c \<Longrightarrow> quoted_integer (quoted [c])"
  by (simp add: quoted_integer_def quoted_def)

text \<open>The tokens \<open>3\<close>, without quotes, and \<open>"3"\<close>.\<close>

theorem update_version_format_witness:
  "update example_db (Some 1000) no_patch ''3'' = (Inl (VersionInvalid ''3''), example_db) \<and>
   VERSION_PATTERN_test (quoted ''3'') \<and>
   fst (update example_db (Some 1000) no_patch (quoted ''3''))
     \<noteq> Inl (VersionInvalid (quoted ''3''))"
proof -
  have 1: "\<not> VERSION_PATTERN_test ''3''"
    by (simp add: VERSION_PATTERN_test_def dquote_def)
  have 2: "quoted_integer (quoted ''3'') \<and> length (quoted ''3'') \<le> 5"
    using quoted_integer_digit[OF is_digit_examples(3)] by (simp add: quoted_def)
  show ?thesis
    using update_version_format [of "''3''" example_db 1000 no_patch] 1
      update_version_format [of "quoted ''3''" example_db 1000 no_patch] 2
    by blast
qed

text \<open>C3 as stated fails: \<open>"1234"\<close> is a decimal integer enclosed in double quotes, and
  \<open>update\<close> fails with \<open>VersionInvalid\<close>.\<close>

theorem update_four_digits_counterexample:
  "quoted_integer (quoted ''1234'') \<and>
   update example_db (Some 1000) no_patch (quoted ''1234'')
     = (Inl (VersionInvalid (quoted ''1234'')), example_db)"
proof -
  have 1: "quoted_integer (quoted ''1234'')"
    by (simp add: quoted_integer_def quoted_def is_digit_def)
  have "\<not> digits_then_quote 3 (''1234'' @ [dquote])"
    "\<not> digits_then_quote 2 (''1234'' @ [dquote])"
    "\<not> digits_then_quote 1 (''1234'' @ [dquote])"
    by (simp_all add: digits_then_quote_def dquote_def)
  then have 2: "\<not> VERSION_PATTERN_test (quoted ''1234'')"
    by (simp add: VERSION_PATTERN_test_def quoted_def)
  then have "update example_db (Some 1000) no_patch (quoted ''1234'')
               = (Inl (VersionInvalid (quoted ''1234'')), example_db)"
    by (simp add: update_def validateUpdate_def)
  with 1 show ?thesis
    by blast
qed

lemma file_create_error: "file_create fk d data = (Inl e, d') \<Longrightarrow> e = StoreError"
  by (simp add: file_create_def Let_def split: if_splits)

lemma addFile_never_NotFound:
  "fst (addFile fk fileTypeFromBuffer d studentId data filename size') \<noteq> Inl NotFound"
proof -
  let ?c = "file_create fk (file_deleteMany d studentId)
              \<lparr>fc_filename = filename, fc_data = data, fc_mimetype = fileTypeFromBuffer data,
               fc_studentId = studentId\<rparr>"
  obtain res d2 where c: "?c = (res, d2)"
    by (cases ?c) auto
  show ?thesis
  proof (cases res)
    case (Inl e)
    then have "e = StoreError"
      using c file_create_error by blast
    then show ?thesis
      using c Inl by (simp add: addFile_def promise_is_null_def Let_def)
  next
    case (Inr r)
    then show ?thesis
      using c by (simp add: addFile_def promise_is_null_def Let_def)
  qed
qed

text \<open>
  C7 does not hold of the code. For an identifier without a student, \<open>addFile\<close> never
  answers \<open>NotFound\<close>: the promise of \<open>findUnique\<close> is compared with \<open>null\<close> before it
  is awaited. Without a foreign key on the table of the files the row is inserted; with
  one, the store refuses the insertion, the tables are as before, and the identifier that
  was drawn for the row is spent.
\<close>

theorem addFile_missing_student:
  "findById example_db 999999 = Inl NotFound \<and>
   addFile False no_mimetype example_db 999999 [] ''bild.png'' 0
     = (Inr bild, example_db\<lparr>files := [bild], file_seq := 1001\<rparr>) \<and>
   addFile True no_mimetype example_db 999999 [] ''bild.png'' 0
     = (Inl StoreError, example_db\<lparr>file_seq := 1001\<rparr>)"
  by code_simp

end
